theory Spec2Isabelle
  imports Main
begin

section \<open>The batch audio converter \<^verbatim>\<open>convert_audio.py\<close>\<close>

text \<open>
  The script enumerates \<^verbatim>\<open>music/*.mp3\<close>, runs \<^verbatim>\<open>ffmpeg.exe\<close> once per file through
  \<^verbatim>\<open>subprocess.run\<close>, counts the successes and exits with status 1 unless every file
  converted. Everything it does is an effect, so the model threads a \<open>world\<close> through the
  code: the filesystem entries with their kinds, the lines printed so far and the
  \<^verbatim>\<open>subprocess.run\<close> calls made so far. Every effectful operation returns a result together
  with the world it leaves behind; the result is \<open>Inl e\<close> when the operation raises \<open>e\<close>.

  What lies outside the repository is a parameter of the model, the \<open>environment\<close>:
  \<^item> what \<^verbatim>\<open>subprocess.run\<close> answers to a call: a completed process, or any exception,
    \<^verbatim>\<open>KeyboardInterrupt\<close> included;
  \<^item> whether \<^verbatim>\<open>sys.stdout\<close> takes a text, given the lines written before: \<^verbatim>\<open>print\<close>
    raises when it does not (a \<^verbatim>\<open>UnicodeEncodeError\<close> for a mark or a file name the
    encoding of the stream lacks, a \<^verbatim>\<open>BrokenPipeError\<close> once the reader has gone);
  \<^item> whether the operating system lets a missing directory be created.

  \<^verbatim>\<open>Path.mkdir\<close> also raises when a regular file is in the way. \<^verbatim>\<open>Path.exists\<close> and
  \<^verbatim>\<open>Path.glob\<close> only read the tree. A \<^verbatim>\<open>pathlib.Path\<close> is the list of its components, and
  \<^verbatim>\<open>str\<close> joins them with \<^verbatim>\<open>/\<close> (the POSIX flavour, which also fixes the case-sensitive
  matching of \<^verbatim>\<open>*.mp3\<close> and the wording of the operating system's error messages). Strings
  are byte lists, so the two non-ASCII marks of the messages are written as their UTF-8
  encodings.
\<close>

subsection \<open>Paths and strings\<close>

type_synonym path = "string list"

text \<open>\<^verbatim>\<open>PurePath.name\<close>: the final component, the empty string when there is none.\<close>

definition path_name :: "path \<Rightarrow> string" where
  "path_name p = (case p of [] \<Rightarrow> [] | _ # _ \<Rightarrow> last p)"

fun join_sep :: "string \<Rightarrow> string list \<Rightarrow> string" where
  "join_sep s [] = []"
| "join_sep s [x] = x"
| "join_sep s (x # y # ys) = x @ s @ join_sep s (y # ys)"

text \<open>\<^verbatim>\<open>str(path)\<close>: the components joined by the separator; \<^verbatim>\<open>.\<close> for the empty path.\<close>

definition str_path :: "path \<Rightarrow> string" where
  "str_path p = (if p = [] then ''.'' else join_sep ''/'' p)"

text \<open>\<^verbatim>\<open>path / name\<close> for a single component.\<close>

definition path_join :: "path \<Rightarrow> string \<Rightarrow> path" where
  "path_join p n = p @ [n]"

text \<open>\<^verbatim>\<open>str\<close> of a Python integer, in decimal.\<close>

definition digit :: "nat \<Rightarrow> char" where
  "digit n = ''0123456789'' ! n"

function str_nat :: "nat \<Rightarrow> string" where
  "str_nat n = (if n < 10 then [digit n] else str_nat (n div 10) @ [digit (n mod 10)])"
  by pat_completeness auto
termination
  by (relation "measure (\<lambda>n. n)") auto

declare str_nat.simps [simp del]

definition str_int :: "int \<Rightarrow> string" where
  "str_int i = (if i < 0 then ''-'' @ str_nat (nat (- i)) else str_nat (nat i))"

definition newline :: string where
  "newline = [CHR 0x0A]"

text \<open>U+2713 (check mark) and U+2717 (ballot x) in UTF-8.\<close>

definition check_mark :: string where
  "check_mark = [CHR 0xE2, CHR 0x9C, CHR 0x93]"

definition cross_mark :: string where
  "cross_mark = [CHR 0xE2, CHR 0x9C, CHR 0x97]"

subsection \<open>The environment: subprocess, filesystem, console\<close>

text \<open>
  Exceptions, as far as the code tells them apart: the two classes that have an
  \<^verbatim>\<open>except\<close> clause of their own, any other instance of \<^verbatim>\<open>Exception\<close> with its
  \<^verbatim>\<open>str\<close>, and \<^verbatim>\<open>KeyboardInterrupt\<close>, which is not an instance of \<^verbatim>\<open>Exception\<close>.
\<close>

datatype py_exception = TimeoutExpired | FileNotFoundError | OtherException string | KeyboardInterrupt

text \<open>
  What one call of \<^verbatim>\<open>subprocess.run\<close> gives: a \<^verbatim>\<open>CompletedProcess\<close> (of which the code
  reads \<^verbatim>\<open>returncode\<close> and \<^verbatim>\<open>stderr\<close>) or a raised exception. A tool whose output cannot be
  decoded as text makes \<^verbatim>\<open>subprocess.run\<close> raise, whatever its exit status.
\<close>

datatype run_result = CompletedProcess (returncode: int) (stderr: string) | Raises py_exception

text \<open>The arguments of one call \<^verbatim>\<open>subprocess.run(cmd, capture_output=..., text=..., timeout=...)\<close>.\<close>

record run_call =
  args :: "string list"
  capture_output :: bool
  text_mode :: bool
  timeout :: int

record environment =
  run :: "run_call \<Rightarrow> run_result"
  stdout_error :: "string list \<Rightarrow> string \<Rightarrow> py_exception option"
  mkdir_error :: "path \<Rightarrow> py_exception option"

datatype kind = File | Dir

record world =
  tree :: "(path \<times> kind) list"
  console :: "string list"
  calls :: "run_call list"

type_synonym 'a result = "(py_exception + 'a) \<times> world"

text \<open>Sequencing: an exception of the first step skips the rest.\<close>

definition and_then ::
    "('e + 'a) \<times> world \<Rightarrow> ('a \<Rightarrow> world \<Rightarrow> ('e + 'b) \<times> world) \<Rightarrow> ('e + 'b) \<times> world" where
  "and_then m k = (case m of (Inl e, w) \<Rightarrow> (Inl e, w) | (Inr x, w) \<Rightarrow> k x w)"

text \<open>
  \<^verbatim>\<open>print\<close>: the line reaches the console unless the stream, after the lines it has
  taken so far, refuses the text.
\<close>

definition print :: "environment \<Rightarrow> string \<Rightarrow> world \<Rightarrow> unit result" where
  "print env s w =
     (case stdout_error env (console w) s of
        Some e \<Rightarrow> (Inl e, w)
      | None \<Rightarrow> (Inr (), w\<lparr>console := console w @ [s]\<rparr>))"

text \<open>
  \<^verbatim>\<open>subprocess.run\<close>: the call is recorded, the environment decides the result; of a
  completed process the return code and the error stream are handed on.
\<close>

definition subprocess_run :: "environment \<Rightarrow> run_call \<Rightarrow> world \<Rightarrow> (int \<times> string) result" where
  "subprocess_run env c w =
     (case run env c of
        Raises e \<Rightarrow> (Inl e, w\<lparr>calls := calls w @ [c]\<rparr>)
      | CompletedProcess rc err \<Rightarrow> (Inr (rc, err), w\<lparr>calls := calls w @ [c]\<rparr>))"

text \<open>The kind of what a path names; the empty path is the current directory.\<close>

definition kind_at :: "world \<Rightarrow> path \<Rightarrow> kind option" where
  "kind_at w p = (if p = [] then Some Dir else map_of (tree w) p)"

text \<open>\<^verbatim>\<open>Path.exists\<close>: something exists at the path, a file or a directory.\<close>

definition path_exists :: "path \<Rightarrow> world \<Rightarrow> bool" where
  "path_exists p w = (kind_at w p \<noteq> None)"

definition is_dir :: "path \<Rightarrow> world \<Rightarrow> bool" where
  "is_dir p w = (kind_at w p = Some Dir)"

text \<open>
  The messages of the two errors of \<^verbatim>\<open>os.mkdir\<close> that the tree decides; both name the path
  given to \<^verbatim>\<open>Path.mkdir\<close>.
\<close>

definition msg_file_exists :: "path \<Rightarrow> string" where
  "msg_file_exists p = ''[Errno 17] File exists: '' @ [CHR 0x27] @ str_path p @ [CHR 0x27]"

definition msg_not_a_directory :: "path \<Rightarrow> string" where
  "msg_not_a_directory p = ''[Errno 20] Not a directory: '' @ [CHR 0x27] @ str_path p @ [CHR 0x27]"

text \<open>
  \<^verbatim>\<open>Path.mkdir(parents=True, exist_ok=True)\<close> on \<open>p\<close>, over \<open>p\<close> and its ancestors from the
  outermost on: a directory that exists is left alone, a missing one is created unless the
  operating system refuses, and a regular file in the way raises \<^verbatim>\<open>NotADirectoryError\<close> (an
  ancestor) or \<^verbatim>\<open>FileExistsError\<close> (\<open>p\<close> itself). What was created before the error stays.
\<close>

fun mkdir_each :: "environment \<Rightarrow> path \<Rightarrow> path list \<Rightarrow> world \<Rightarrow> unit result" where
  "mkdir_each env p [] w = (Inr (), w)"
| "mkdir_each env p (q # qs) w =
     (case kind_at w q of
        Some Dir \<Rightarrow> mkdir_each env p qs w
      | Some File \<Rightarrow>
          (Inl (OtherException (if q = p then msg_file_exists p else msg_not_a_directory p)), w)
      | None \<Rightarrow>
          (case mkdir_error env q of
             Some e \<Rightarrow> (Inl e, w)
           | None \<Rightarrow> mkdir_each env p qs (w\<lparr>tree := tree w @ [(q, Dir)]\<rparr>)))"

definition mkdir :: "environment \<Rightarrow> path \<Rightarrow> world \<Rightarrow> unit result" where
  "mkdir env p w = mkdir_each env p (map (\<lambda>n. take n p) [1 ..< Suc (length p)]) w"

text \<open>
  The pattern \<^verbatim>\<open>*.mp3\<close> matches a name that ends in \<^verbatim>\<open>.mp3\<close>, and
  \<^verbatim>\<open>Path.glob("*.mp3")\<close> yields the entries directly inside the directory whose names
  match, in the order of the directory listing; it yields nothing when the path is not a
  directory.
\<close>

definition matches_mp3 :: "string \<Rightarrow> bool" where
  "matches_mp3 n = (drop (length n - 4) n = ''.mp3'')"

definition glob_mp3 :: "path \<Rightarrow> world \<Rightarrow> path list" where
  "glob_mp3 d w =
     (if is_dir d w
      then filter (\<lambda>p. p \<noteq> [] \<and> butlast p = d \<and> matches_mp3 (last p)) (map fst (tree w))
      else [])"

subsection \<open>\<^verbatim>\<open>convert_audio_file\<close>\<close>

definition ffmpeg_cmd :: "path \<Rightarrow> path \<Rightarrow> string list" where
  "ffmpeg_cmd input_path output_path =
     [''ffmpeg.exe'',
      ''-i'', str_path input_path,
      ''-ar'', ''44100'',
      ''-ac'', ''2'',
      ''-b:a'', ''192k'',
      ''-y'',
      str_path output_path]"

definition ffmpeg_call :: "path \<Rightarrow> path \<Rightarrow> run_call" where
  "ffmpeg_call input_path output_path =
     \<lparr>args = ffmpeg_cmd input_path output_path,
      capture_output = True, text_mode = True, timeout = 60\<rparr>"

definition msg_converting :: "path \<Rightarrow> string" where
  "msg_converting input_path = ''Converting: '' @ path_name input_path"

definition msg_converted :: string where
  "msg_converted = ''  '' @ check_mark @ '' Converted successfully''"

definition msg_ffmpeg_error :: "string \<Rightarrow> string" where
  "msg_ffmpeg_error err = ''  '' @ cross_mark @ '' ffmpeg error: '' @ err"

definition msg_timed_out :: string where
  "msg_timed_out = ''  '' @ cross_mark @ '' Conversion timed out''"

definition msg_not_found :: string where
  "msg_not_found = ''  '' @ cross_mark @
     '' ffmpeg not found. Make sure ffmpeg.exe is in your PATH or in the current directory''"

definition msg_error :: "string \<Rightarrow> string" where
  "msg_error e = ''  '' @ cross_mark @ '' Error: '' @ e"

text \<open>
  The body of the \<^verbatim>\<open>try\<close> block (lines 19 to 37): \<open>Inl\<close> is an exception leaving the
  block, from \<^verbatim>\<open>subprocess.run\<close> or from one of the two \<^verbatim>\<open>print\<close> calls, \<open>Inr\<close> the value of
  a \<^verbatim>\<open>return\<close>.
\<close>

definition try_block :: "environment \<Rightarrow> path \<Rightarrow> path \<Rightarrow> world \<Rightarrow> bool result" where
  "try_block env input_path output_path w =
     and_then (subprocess_run env (ffmpeg_call input_path output_path) w) (\<lambda>(rc, err) w1.
       if rc = 0 then and_then (print env msg_converted w1) (\<lambda>_ w2. (Inr True, w2))
       else and_then (print env (msg_ffmpeg_error err) w1) (\<lambda>_ w2. (Inr False, w2)))"

text \<open>
  The \<^verbatim>\<open>except\<close> clauses (lines 39 to 47), tried in the order of the source. An exception
  that is not an \<^verbatim>\<open>Exception\<close> matches none and goes on to the caller, and so does an
  exception raised by the \<^verbatim>\<open>print\<close> of a clause.
\<close>

definition except_clauses :: "environment \<Rightarrow> py_exception \<Rightarrow> world \<Rightarrow> bool result" where
  "except_clauses env e w =
     (case e of
        TimeoutExpired \<Rightarrow> and_then (print env msg_timed_out w) (\<lambda>_ w1. (Inr False, w1))
      | FileNotFoundError \<Rightarrow> and_then (print env msg_not_found w) (\<lambda>_ w1. (Inr False, w1))
      | OtherException s \<Rightarrow> and_then (print env (msg_error s) w) (\<lambda>_ w1. (Inr False, w1))
      | KeyboardInterrupt \<Rightarrow> (Inl KeyboardInterrupt, w))"

text \<open>
  The whole function: the progress line of line 17, which is outside the \<^verbatim>\<open>try\<close>, then the
  \<^verbatim>\<open>try\<close> statement. The result is \<open>Inl\<close> when an exception reaches the caller.
\<close>

definition convert_audio_file :: "environment \<Rightarrow> path \<Rightarrow> path \<Rightarrow> world \<Rightarrow> bool result" where
  "convert_audio_file env input_path output_path w =
     and_then (print env (msg_converting input_path) w) (\<lambda>_ w0.
       case try_block env input_path output_path w0 of
         (Inr b, w1) \<Rightarrow> (Inr b, w1)
       | (Inl e, w1) \<Rightarrow> except_clauses env e w1)"

subsection \<open>\<^verbatim>\<open>main\<close>\<close>

definition music_dir :: path where
  "music_dir = [''music'']"

definition output_dir :: path where
  "output_dir = [''public'', ''music'']"

text \<open>
  The \<^verbatim>\<open>for\<close> loop of \<^verbatim>\<open>main\<close>, with \<^verbatim>\<open>success_count\<close> as accumulator. An exception raised
  by \<^verbatim>\<open>convert_audio_file\<close> leaves the loop at once; the result then holds the exception
  and the value \<^verbatim>\<open>success_count\<close> had at that moment.
\<close>

fun main_loop ::
    "environment \<Rightarrow> path list \<Rightarrow> int \<Rightarrow> world \<Rightarrow> py_exception option \<times> int \<times> world" where
  "main_loop env [] success_count w = (None, success_count, w)"
| "main_loop env (mp3_file # rest) success_count w =
     (case convert_audio_file env mp3_file (path_join output_dir (path_name mp3_file)) w of
        (Inl e, w1) \<Rightarrow> (Some e, success_count, w1)
      | (Inr ok, w1) \<Rightarrow>
          main_loop env rest (if ok then success_count + 1 else success_count) w1)"

text \<open>How \<^verbatim>\<open>main\<close> can end other than by returning.\<close>

datatype main_exit = SystemExit int | Uncaught py_exception

definition uncaught :: "'a result \<Rightarrow> (main_exit + 'a) \<times> world" where
  "uncaught m = (case m of (Inl e, w) \<Rightarrow> (Inl (Uncaught e), w) | (Inr x, w) \<Rightarrow> (Inr x, w))"

definition sys_exit :: "int \<Rightarrow> world \<Rightarrow> (main_exit + unit) \<times> world" where
  "sys_exit c w = (Inl (SystemExit c), w)"

definition msg_rule :: string where
  "msg_rule = replicate 60 (CHR ''='')"

definition msg_summary :: "int \<Rightarrow> int \<Rightarrow> string" where
  "msg_summary success_count total_count =
     ''Conversion complete: '' @ str_int success_count @ ''/'' @ str_int total_count @ '' successful''"

definition msg_no_dir :: string where
  "msg_no_dir = ''ERROR: '' @ str_path music_dir @ '' directory not found''"

definition msg_no_files :: string where
  "msg_no_files = ''No MP3 files found in '' @ str_path music_dir"

definition msg_found :: "int \<Rightarrow> string" where
  "msg_found n = ''Found '' @ str_int n @ '' MP3 files'' @ newline"

definition msg_some_failed :: string where
  "msg_some_failed = newline @ ''Some files failed to convert. Check errors above.''"

definition main :: "environment \<Rightarrow> world \<Rightarrow> (main_exit + unit) \<times> world" where
  "main env w =
     (if \<not> path_exists music_dir w then
        and_then (uncaught (print env msg_no_dir w)) (\<lambda>_ w1. sys_exit 1 w1)
      else
        and_then (uncaught (mkdir env output_dir w)) (\<lambda>_ w1.
          let mp3_files = glob_mp3 music_dir w1 in
          if mp3_files = [] then
            and_then (uncaught (print env msg_no_files w1)) (\<lambda>_ w2. sys_exit 1 w2)
          else
            and_then (uncaught (print env (msg_found (int (length mp3_files))) w1)) (\<lambda>_ w2.
              case main_loop env mp3_files 0 w2 of
                (Some e, success_count, w3) \<Rightarrow> (Inl (Uncaught e), w3)
              | (None, success_count, w3) \<Rightarrow>
                  and_then (uncaught (print env (newline @ msg_rule) w3)) (\<lambda>_ w4.
                  and_then (uncaught (print env
                      (msg_summary success_count (int (length mp3_files))) w4)) (\<lambda>_ w5.
                  and_then (uncaught (print env msg_rule w5)) (\<lambda>_ w6.
                    if success_count < int (length mp3_files) then
                      and_then (uncaught (print env msg_some_failed w6)) (\<lambda>_ w7. sys_exit 1 w7)
                    else (Inr (), w6)))))))"

text \<open>
  The exit status of the process running \<^verbatim>\<open>main()\<close>, as a shell sees it: 0 when it
  returns, the argument of \<^verbatim>\<open>sys.exit\<close>, 1 for an uncaught exception, and 130 when the
  interpreter ends on an uncaught \<^verbatim>\<open>KeyboardInterrupt\<close>.
\<close>

definition exit_status :: "(main_exit + unit) \<Rightarrow> int" where
  "exit_status r =
     (case r of
        Inr _ \<Rightarrow> 0
      | Inl (SystemExit c) \<Rightarrow> c
      | Inl (Uncaught KeyboardInterrupt) \<Rightarrow> 130
      | Inl (Uncaught _) \<Rightarrow> 1)"

subsection \<open>Vocabulary of the properties\<close>

text \<open>
  The call that \<^verbatim>\<open>main\<close> makes for one discovered file.
\<close>

definition task_call :: "path \<Rightarrow> run_call" where
  "task_call f = ffmpeg_call f (path_join output_dir (path_name f))"

text \<open>
  \<^verbatim>\<open>subprocess.run\<close> returned a completed process with return code 0.
\<close>

definition tool_ok :: "run_result \<Rightarrow> bool" where
  "tool_ok r = (case r of CompletedProcess rc err \<Rightarrow> rc = 0 | Raises e \<Rightarrow> False)"

text \<open>
  The outcome line that the code prints for each result of \<^verbatim>\<open>subprocess.run\<close>; none for
  \<^verbatim>\<open>KeyboardInterrupt\<close>, which no clause handles.
\<close>

definition outcome_lines :: "run_result \<Rightarrow> string list" where
  "outcome_lines r =
     (case r of
        CompletedProcess rc err \<Rightarrow> [if rc = 0 then msg_converted else msg_ffmpeg_error err]
      | Raises TimeoutExpired \<Rightarrow> [msg_timed_out]
      | Raises FileNotFoundError \<Rightarrow> [msg_not_found]
      | Raises (OtherException s) \<Rightarrow> [msg_error s]
      | Raises KeyboardInterrupt \<Rightarrow> [])"

text \<open>
  The stream, having taken the lines \<open>written\<close>, takes the given lines one after the
  other: no \<^verbatim>\<open>print\<close> of them raises.
\<close>

fun takes_all :: "environment \<Rightarrow> string list \<Rightarrow> string list \<Rightarrow> bool" where
  "takes_all env written [] = True"
| "takes_all env written (s # rest) =
     (stdout_error env written s = None \<and> takes_all env (written @ [s]) rest)"

text \<open>
  Nothing that the \<^verbatim>\<open>try\<close> statement leaves unhandled happens to one conversion started
  in world \<open>w\<close>: \<^verbatim>\<open>subprocess.run\<close> is not interrupted, and the stream takes the progress
  line and the outcome line.
\<close>

definition undisturbed :: "environment \<Rightarrow> world \<Rightarrow> path \<Rightarrow> path \<Rightarrow> bool" where
  "undisturbed env w src dst =
     (run env (ffmpeg_call src dst) \<noteq> Raises KeyboardInterrupt
      \<and> takes_all env (console w)
            (msg_converting src # outcome_lines (run env (ffmpeg_call src dst))))"

text \<open>
  No call that \<^verbatim>\<open>main\<close> makes for these files raises \<^verbatim>\<open>KeyboardInterrupt\<close>.
\<close>

definition uninterrupted :: "environment \<Rightarrow> path list \<Rightarrow> bool" where
  "uninterrupted env files =
     list_all (\<lambda>f. run env (task_call f) \<noteq> Raises KeyboardInterrupt) files"

text \<open>
  The lines that the loop prints for these files when nothing disturbs it.
\<close>

definition loop_lines :: "environment \<Rightarrow> path list \<Rightarrow> string list" where
  "loop_lines env files =
     concat (map (\<lambda>f. msg_converting f # outcome_lines (run env (task_call f))) files)"

text \<open>
  The number of discovered files on which the tool succeeds.
\<close>

definition successes :: "environment \<Rightarrow> path list \<Rightarrow> int" where
  "successes env files = int (length (filter (\<lambda>f. tool_ok (run env (task_call f))) files))"

text \<open>
  The lines that \<^verbatim>\<open>main\<close> prints after the loop (lines 74 to 79).
\<close>

definition summary_lines :: "int \<Rightarrow> int \<Rightarrow> string list" where
  "summary_lines sc n =
     [newline @ msg_rule, msg_summary sc n, msg_rule] @ (if sc < n then [msg_some_failed] else [])"

text \<open>
  All the lines of a run over these files, from \<^verbatim>\<open>Found ... MP3 files\<close> on, when nothing
  disturbs it.
\<close>

definition run_lines :: "environment \<Rightarrow> path list \<Rightarrow> string list" where
  "run_lines env files =
     msg_found (int (length files)) # loop_lines env files @
     summary_lines (successes env files) (int (length files))"

text \<open>
  Concrete worlds and environments for the instances below. In \<open>sample_world\<close> the
  directory \<^verbatim>\<open>music\<close> holds two \<^verbatim>\<open>.mp3\<close> files and a text file; \<open>sample_tool\<close> converts
  \<^verbatim>\<open>b.mp3\<close> and rejects everything else. \<open>utf8_stdout\<close> takes every text, \<open>latin_stdout\<close>
  is a stream whose encoding lacks every character that UTF-8 writes with the lead byte
  \<^verbatim>\<open>E2\<close>, the two marks of the messages among them; both answer the same whatever has
  been written. In \<open>blocked_world\<close> a regular file sits
  at \<^verbatim>\<open>public/music\<close>, in \<open>public_file_world\<close> at \<^verbatim>\<open>public\<close>. \<open>note_mp3\<close> is a file named
  with U+266A (eighth note).
\<close>

definition sample_world :: world where
  "sample_world =
     \<lparr>tree = [([''music''], Dir), ([''music'', ''a.mp3''], File),
              ([''music'', ''notes.txt''], File), ([''music'', ''b.mp3''], File)],
      console = [], calls = []\<rparr>"

definition sample_tool :: "run_call \<Rightarrow> run_result" where
  "sample_tool c =
     (if last (args c) = ''public/music/b.mp3'' then CompletedProcess 0 []
      else CompletedProcess 1 ''Invalid data found'')"

definition ok_tool :: "run_call \<Rightarrow> run_result" where
  "ok_tool c = CompletedProcess 0 []"

definition timeout_tool :: "run_call \<Rightarrow> run_result" where
  "timeout_tool c = Raises TimeoutExpired"

definition absent_tool :: "run_call \<Rightarrow> run_result" where
  "absent_tool c = Raises FileNotFoundError"

definition interrupted_tool :: "run_call \<Rightarrow> run_result" where
  "interrupted_tool c = Raises KeyboardInterrupt"

definition utf8_stdout :: "string list \<Rightarrow> string \<Rightarrow> py_exception option" where
  "utf8_stdout written s = None"

definition latin_stdout :: "string list \<Rightarrow> string \<Rightarrow> py_exception option" where
  "latin_stdout written s =
     (if CHR 0xE2 \<in> set s then Some (OtherException ''charmap codec cannot encode character'')
      else None)"

definition sample_env :: environment where
  "sample_env = \<lparr>run = sample_tool, stdout_error = utf8_stdout, mkdir_error = (\<lambda>p. None)\<rparr>"

definition blocked_world :: world where
  "blocked_world =
     \<lparr>tree = [([''music''], Dir), ([''music'', ''a.mp3''], File), ([''music'', ''b.mp3''], File),
              ([''public''], Dir), ([''public'', ''music''], File)],
      console = [], calls = []\<rparr>"

definition public_file_world :: world where
  "public_file_world =
     \<lparr>tree = [([''music''], Dir), ([''music'', ''notes.txt''], File), ([''public''], File)],
      console = [], calls = []\<rparr>"

definition empty_music_world :: world where
  "empty_music_world =
     \<lparr>tree = [([''music''], Dir), ([''music'', ''notes.txt''], File)], console = [], calls = []\<rparr>"

definition no_music_world :: world where
  "no_music_world = \<lparr>tree = [([''songs''], Dir)], console = [], calls = []\<rparr>"

definition note_mp3 :: path where
  "note_mp3 = [''music'', [CHR 0xE2, CHR 0x99, CHR 0xAA] @ ''.mp3'']"

section \<open>Properties of the model\<close>

lemma takes_all_append:
  "takes_all env h (xs @ ys) = (takes_all env h xs \<and> takes_all env (h @ xs) ys)"
  by (induction xs arbitrary: h) auto

lemma print_snd [simp]:
  "calls (snd (print env s w)) = calls w" "tree (snd (print env s w)) = tree w"
  by (simp_all add: print_def split: option.splits)

lemma print_step:
  "and_then (uncaught (print env s w)) k =
     (case stdout_error env (console w) s of
        Some e \<Rightarrow> (Inl (Uncaught e), w)
      | None \<Rightarrow> k () (w\<lparr>console := console w @ [s]\<rparr>))"
  by (simp add: and_then_def uncaught_def print_def split: option.splits)

lemma print_then:
  "and_then (print env s w) k =
     (case stdout_error env (console w) s of
        Some e \<Rightarrow> (Inl e, w)
      | None \<Rightarrow> k () (w\<lparr>console := console w @ [s]\<rparr>))"
  by (simp add: and_then_def print_def split: option.splits)

lemmas convert_unfold =
  convert_audio_file_def try_block_def subprocess_run_def print_def and_then_def except_clauses_def

lemma convert_audio_file_undisturbed:
  assumes "undisturbed env w src dst"
  shows "convert_audio_file env src dst w =
     (Inr (tool_ok (run env (ffmpeg_call src dst))),
      w\<lparr>console := console w @ msg_converting src # outcome_lines (run env (ffmpeg_call src dst)),
        calls := calls w @ [ffmpeg_call src dst]\<rparr>)"
proof (cases "run env (ffmpeg_call src dst)")
  case (CompletedProcess rc err)
  with assms show ?thesis
    by (cases "rc = 0")
      (simp_all add: undisturbed_def outcome_lines_def tool_ok_def convert_unfold)
next
  case (Raises e)
  with assms show ?thesis
    by (cases e)
      (simp_all add: undisturbed_def outcome_lines_def tool_ok_def convert_unfold)
qed

lemma print_return_snd [simp]:
  "calls (snd (and_then (print env s w) (\<lambda>_ w'. (Inr b, w')))) = calls w"
  "tree (snd (and_then (print env s w) (\<lambda>_ w'. (Inr b, w')))) = tree w"
  by (simp_all add: print_def and_then_def split: option.splits)

lemma except_clauses_snd [simp]:
  "calls (snd (except_clauses env e w)) = calls w"
  "tree (snd (except_clauses env e w)) = tree w"
  by (cases e; simp add: except_clauses_def)+

lemma try_block_snd [simp]:
  "calls (snd (try_block env src dst w)) = calls w @ [ffmpeg_call src dst]"
  "tree (snd (try_block env src dst w)) = tree w"
  by (cases "run env (ffmpeg_call src dst)";
      simp add: try_block_def subprocess_run_def and_then_def [of "(Inl _, _)"]
        and_then_def [of "(Inr _, _)"])+

lemma after_try_snd:
  "calls (snd (case m of (Inr b, w1) \<Rightarrow> (Inr b, w1) | (Inl e, w1) \<Rightarrow> except_clauses env e w1))
     = calls (snd m)"
  "tree (snd (case m of (Inr b, w1) \<Rightarrow> (Inr b, w1) | (Inl e, w1) \<Rightarrow> except_clauses env e w1))
     = tree (snd m)"
  by (cases m; cases "fst m"; simp)+

lemma convert_audio_file_calls:
  "calls (snd (convert_audio_file env src dst w)) =
     calls w @ (if stdout_error env (console w) (msg_converting src) = None
                then [ffmpeg_call src dst] else [])"
  by (cases "stdout_error env (console w) (msg_converting src)")
    (simp_all add: convert_audio_file_def print_then after_try_snd)

lemma convert_audio_file_tree [simp]:
  "tree (snd (convert_audio_file env src dst w)) = tree w"
  by (cases "stdout_error env (console w) (msg_converting src)")
    (simp_all add: convert_audio_file_def print_then after_try_snd)

lemma convert_audio_file_rejected:
  "stdout_error env (console w) (msg_converting src) = Some e \<Longrightarrow>
     convert_audio_file env src dst w = (Inl e, w)"
  by (simp add: convert_audio_file_def print_then)

lemma loop_lines_Cons:
  "loop_lines env (f # files) =
     msg_converting f # outcome_lines (run env (task_call f)) @ loop_lines env files"
  by (simp add: loop_lines_def)

lemma main_loop_undisturbed:
  "uninterrupted env files \<Longrightarrow> takes_all env (console w) (loop_lines env files) \<Longrightarrow>
   main_loop env files sc w =
     (None, sc + successes env files,
      w\<lparr>console := console w @ loop_lines env files, calls := calls w @ map task_call files\<rparr>)"
proof (induction files arbitrary: sc w)
  case Nil
  show ?case by (simp add: successes_def loop_lines_def)
next
  case (Cons f files)
  define out where "out = path_join output_dir (path_name f)"
  define ls where "ls = msg_converting f # outcome_lines (run env (task_call f))"
  from Cons.prems(1) have ni: "run env (task_call f) \<noteq> Raises KeyboardInterrupt"
    and rest: "uninterrupted env files"
    by (simp_all add: uninterrupted_def)
  from Cons.prems(2) have t1: "takes_all env (console w) ls"
    and t2: "takes_all env (console w @ ls) (loop_lines env files)"
    using takes_all_append [of env "console w" ls "loop_lines env files"]
    by (simp_all add: loop_lines_Cons ls_def)
  from ni t1 have u: "undisturbed env w f out"
    by (simp add: undisturbed_def out_def ls_def task_call_def)
  define w1 where "w1 = w\<lparr>console := console w @ ls, calls := calls w @ [task_call f]\<rparr>"
  have c: "convert_audio_file env f out w = (Inr (tool_ok (run env (task_call f))), w1)"
    using convert_audio_file_undisturbed [OF u]
    by (simp add: w1_def ls_def task_call_def out_def)
  have t2': "takes_all env (console w1) (loop_lines env files)"
    using t2 by (simp add: w1_def)
  show ?case
    using c Cons.IH [OF rest t2']
    by (simp add: out_def [symmetric] successes_def loop_lines_Cons ls_def [symmetric] w1_def)
qed

lemma main_loop_bounds:
  "sc \<le> fst (snd (main_loop env files sc w))
   \<and> fst (snd (main_loop env files sc w)) \<le> sc + int (length files)"
proof (induction files arbitrary: sc w)
  case Nil
  show ?case by simp
next
  case (Cons f files)
  obtain r w1 where c: "convert_audio_file env f (path_join output_dir (path_name f)) w = (r, w1)"
    by (cases "convert_audio_file env f (path_join output_dir (path_name f)) w")
  show ?case
  proof (cases r)
    case (Inl e)
    with c show ?thesis by simp
  next
    case (Inr ok)
    with c Cons.IH [of "if ok then sc + 1 else sc" w1] show ?thesis
      by (simp split: if_splits)
  qed
qed

lemma main_loop_append:
  "main_loop env (xs @ ys) sc w =
     (case main_loop env xs sc w of
        (Some e, sc', w') \<Rightarrow> (Some e, sc', w')
      | (None, sc', w') \<Rightarrow> main_loop env ys sc' w')"
proof (induction xs arbitrary: sc w)
  case Nil
  show ?case by simp
next
  case (Cons f xs)
  show ?case
    by (simp add: Cons.IH split: prod.splits sum.splits)
qed

lemma main_loop_calls:
  "\<exists>n. calls (snd (snd (main_loop env files sc w))) = calls w @ map task_call (take n files)"
proof (induction files arbitrary: sc w)
  case Nil
  show ?case by simp
next
  case (Cons f files)
  obtain r w1 where c: "convert_audio_file env f (path_join output_dir (path_name f)) w = (r, w1)"
    by (cases "convert_audio_file env f (path_join output_dir (path_name f)) w")
  from convert_audio_file_calls [of env f "path_join output_dir (path_name f)" w] c
  have w1: "calls w1 = calls w @ (if stdout_error env (console w) (msg_converting f) = None
      then [task_call f] else [])"
    by (simp add: task_call_def)
  show ?case
  proof (cases r)
    case (Inl e)
    show ?thesis
    proof (cases "stdout_error env (console w) (msg_converting f) = None")
      case True
      with c Inl w1 have "calls (snd (snd (main_loop env (f # files) sc w)))
          = calls w @ map task_call (take 1 (f # files))" by simp
      then show ?thesis by blast
    next
      case False
      with c Inl w1 have "calls (snd (snd (main_loop env (f # files) sc w)))
          = calls w @ map task_call (take 0 (f # files))" by simp
      then show ?thesis by blast
    qed
  next
    case (Inr ok)
    have acc: "stdout_error env (console w) (msg_converting f) = None"
    proof (rule ccontr)
      assume "stdout_error env (console w) (msg_converting f) \<noteq> None"
      then obtain e where "stdout_error env (console w) (msg_converting f) = Some e"
        by auto
      from convert_audio_file_rejected [OF this] c Inr show False by simp
    qed
    from Cons.IH [of "if ok then sc + 1 else sc" w1]
    obtain n where "calls (snd (snd (main_loop env files (if ok then sc + 1 else sc) w1)))
        = calls w1 @ map task_call (take n files)" by blast
    with c Inr w1 acc have "calls (snd (snd (main_loop env (f # files) sc w)))
        = calls w @ map task_call (take (Suc n) (f # files))" by simp
    then show ?thesis by blast
  qed
qed

lemma main_loop_tree [simp]: "tree (snd (snd (main_loop env files sc w))) = tree w"
proof (induction files arbitrary: sc w)
  case Nil
  show ?case by simp
next
  case (Cons f files)
  obtain r w1 where c: "convert_audio_file env f (path_join output_dir (path_name f)) w = (r, w1)"
    by (cases "convert_audio_file env f (path_join output_dir (path_name f)) w")
  from convert_audio_file_tree [of env f "path_join output_dir (path_name f)" w] c
  have "tree w1 = tree w" by simp
  with c Cons.IH show ?case by (cases r) simp_all
qed

lemma task_call_timeout [simp]: "timeout (task_call f) = 60"
  by (simp add: task_call_def ffmpeg_call_def)

lemma mkdir_each_snd [simp]:
  "console (snd (mkdir_each env p qs w)) = console w"
  "calls (snd (mkdir_each env p qs w)) = calls w"
  by (induction qs arbitrary: w; simp split: option.splits kind.splits)+

lemma kind_at_append:
  "kind_at (w\<lparr>tree := tree w @ [(q, k)]\<rparr>) p =
     (case kind_at w p of Some k' \<Rightarrow> Some k' | None \<Rightarrow> if p = q then Some k else None)"
  by (simp add: kind_at_def map_add_def split: option.splits)

lemma mkdir_each_keeps:
  "kind_at w q = Some k \<Longrightarrow> kind_at (snd (mkdir_each env p qs w)) q = Some k"
  by (induction qs arbitrary: w) (simp_all add: kind_at_append split: option.splits kind.splits)

lemma mkdir_each_elsewhere:
  "q \<notin> set qs \<Longrightarrow> kind_at (snd (mkdir_each env p qs w)) q = kind_at w q"
  by (induction qs arbitrary: w)
    (auto simp: kind_at_append split: option.splits kind.splits)

lemma mkdir_each_dirs:
  "fst (mkdir_each env p qs w) = Inr () \<Longrightarrow> q \<in> set qs \<Longrightarrow>
     is_dir q (snd (mkdir_each env p qs w))"
proof (induction qs arbitrary: w)
  case Nil
  then show ?case by simp
next
  case (Cons a qs)
  show ?case
  proof (cases "kind_at w a")
    case None
    with Cons.prems(1) obtain "mkdir_error env a = None"
      and ok: "fst (mkdir_each env p qs (w\<lparr>tree := tree w @ [(a, Dir)]\<rparr>)) = Inr ()"
      by (cases "mkdir_error env a") simp_all
    have here: "kind_at (w\<lparr>tree := tree w @ [(a, Dir)]\<rparr>) a = Some Dir"
      by (simp add: kind_at_append None)
    show ?thesis
    proof (cases "q = a")
      case True
      with None \<open>mkdir_error env a = None\<close> mkdir_each_keeps [OF here] show ?thesis
        by (simp add: is_dir_def)
    next
      case False
      with Cons.prems(2) have "q \<in> set qs" by simp
      from Cons.IH [OF ok this] None \<open>mkdir_error env a = None\<close> show ?thesis by simp
    qed
  next
    case (Some k)
    with Cons.prems(1) have k: "k = Dir" and ok: "fst (mkdir_each env p qs w) = Inr ()"
      by (cases k; simp)+
    show ?thesis
    proof (cases "q = a")
      case True
      with Some k mkdir_each_keeps [of w a Dir] show ?thesis by (simp add: is_dir_def)
    next
      case False
      with Cons.prems(2) have "q \<in> set qs" by simp
      from Cons.IH [OF ok this] Some k show ?thesis by simp
    qed
  qed
qed

lemma glob_mp3_append:
  "butlast a \<noteq> d \<Longrightarrow> d \<noteq> a \<Longrightarrow> glob_mp3 d (w\<lparr>tree := tree w @ [(a, k)]\<rparr>) = glob_mp3 d w"
  by (auto simp: glob_mp3_def is_dir_def kind_at_append split: option.splits)

lemma mkdir_each_glob:
  "\<forall>q \<in> set qs. butlast q \<noteq> d \<Longrightarrow> d \<notin> set qs \<Longrightarrow>
     glob_mp3 d (snd (mkdir_each env p qs w)) = glob_mp3 d w"
proof (induction qs arbitrary: w)
  case Nil
  show ?case by simp
next
  case (Cons a qs)
  then have ih: "\<And>w. glob_mp3 d (snd (mkdir_each env p qs w)) = glob_mp3 d w"
    and a: "butlast a \<noteq> d" "d \<noteq> a" by auto
  show ?case
  proof (cases "kind_at w a")
    case None
    then show ?thesis
      by (cases "mkdir_error env a") (simp_all add: ih glob_mp3_append [OF a])
  next
    case (Some k)
    then show ?thesis by (cases k) (simp_all add: ih)
  qed
qed

lemma output_dir_prefixes:
  "map (\<lambda>n. take n output_dir) [1 ..< Suc (length output_dir)] = [[''public''], output_dir]"
  by (simp add: output_dir_def upt_rec)

lemma mkdir_output_snd [simp]:
  "console (snd (mkdir env output_dir w)) = console w"
  "calls (snd (mkdir env output_dir w)) = calls w"
  by (simp_all add: mkdir_def)

lemma mkdir_output_glob:
  "glob_mp3 music_dir (snd (mkdir env output_dir w)) = glob_mp3 music_dir w"
  unfolding mkdir_def output_dir_prefixes
  by (rule mkdir_each_glob) (simp_all add: output_dir_def music_dir_def)

lemma mkdir_output_dirs:
  assumes "fst (mkdir env output_dir w) = Inr ()"
  shows "is_dir output_dir (snd (mkdir env output_dir w))
     \<and> is_dir [''public''] (snd (mkdir env output_dir w))"
proof -
  from assms have ok: "fst (mkdir_each env output_dir [[''public''], output_dir] w) = Inr ()"
    by (simp only: mkdir_def output_dir_prefixes)
  from mkdir_each_dirs [OF ok, of output_dir] mkdir_each_dirs [OF ok, of "[''public'']"]
  show ?thesis
    by (simp only: mkdir_def output_dir_prefixes) (simp del: mkdir_each.simps)
qed

lemma mkdir_keeps_exists:
  "path_exists q w \<Longrightarrow> path_exists q (snd (mkdir env p w))"
  by (auto simp: path_exists_def mkdir_def dest: mkdir_each_keeps)

lemma main_no_dir:
  "\<not> path_exists music_dir w \<Longrightarrow>
   main env w =
     (case stdout_error env (console w) msg_no_dir of
        Some e \<Rightarrow> (Inl (Uncaught e), w)
      | None \<Rightarrow> (Inl (SystemExit 1), w\<lparr>console := console w @ [msg_no_dir]\<rparr>))"
  by (simp add: main_def print_step sys_exit_def split: option.splits)

lemma main_mkdir_fails:
  "path_exists music_dir w \<Longrightarrow> mkdir env output_dir w = (Inl e, w1) \<Longrightarrow>
   main env w = (Inl (Uncaught e), w1)"
  by (simp add: main_def uncaught_def and_then_def)

lemma main_after_mkdir:
  assumes "path_exists music_dir w" and "mkdir env output_dir w = (Inr (), w1)"
  shows "main env w =
     (let mp3_files = glob_mp3 music_dir w in
      if mp3_files = [] then
        and_then (uncaught (print env msg_no_files w1)) (\<lambda>_ w2. sys_exit 1 w2)
      else
        and_then (uncaught (print env (msg_found (int (length mp3_files))) w1)) (\<lambda>_ w2.
          case main_loop env mp3_files 0 w2 of
            (Some e, success_count, w3) \<Rightarrow> (Inl (Uncaught e), w3)
          | (None, success_count, w3) \<Rightarrow>
              and_then (uncaught (print env (newline @ msg_rule) w3)) (\<lambda>_ w4.
              and_then (uncaught (print env
                  (msg_summary success_count (int (length mp3_files))) w4)) (\<lambda>_ w5.
              and_then (uncaught (print env msg_rule w5)) (\<lambda>_ w6.
                if success_count < int (length mp3_files) then
                  and_then (uncaught (print env msg_some_failed w6)) (\<lambda>_ w7. sys_exit 1 w7)
                else (Inr (), w6))))))"
proof -
  from mkdir_output_glob [of env w] assms(2)
  have "glob_mp3 music_dir w1 = glob_mp3 music_dir w" by simp
  with assms show ?thesis
    by (simp add: main_def uncaught_def [of "(Inr _, _)"] and_then_def [of "(Inr _, _)"])
qed

lemma main_no_files:
  assumes "path_exists music_dir w" and "mkdir env output_dir w = (Inr (), w1)"
    and "glob_mp3 music_dir w = []"
  shows "main env w =
     (case stdout_error env (console w1) msg_no_files of
        Some e \<Rightarrow> (Inl (Uncaught e), w1)
      | None \<Rightarrow> (Inl (SystemExit 1), w1\<lparr>console := console w1 @ [msg_no_files]\<rparr>))"
  by (simp add: main_after_mkdir [OF assms(1,2)] assms(3) print_step sys_exit_def
      split: option.splits)

lemma main_run:
  assumes "path_exists music_dir w" and "mkdir env output_dir w = (Inr (), w1)"
    and "glob_mp3 music_dir w = files" and "files \<noteq> []"
    and "uninterrupted env files"
    and "takes_all env (console w) (run_lines env files)"
  shows "main env w =
     (if successes env files < int (length files) then Inl (SystemExit 1) else Inr (),
      w1\<lparr>console := console w @ run_lines env files,
        calls := calls w @ map task_call files\<rparr>)"
proof -
  from mkdir_output_snd [of env w] assms(2)
  have same: "console w1 = console w" "calls w1 = calls w" by simp_all
  define found where "found = msg_found (int (length files))"
  define w2 where "w2 = w1\<lparr>console := console w1 @ [found]\<rparr>"
  from assms(6) have f: "stdout_error env (console w1) found = None"
    and l: "takes_all env (console w2) (loop_lines env files)"
    and t: "takes_all env (console w2 @ loop_lines env files)
        (summary_lines (successes env files) (int (length files)))"
    using takes_all_append [of env "console w @ [found]" "loop_lines env files"
        "summary_lines (successes env files) (int (length files))"]
    by (simp_all add: run_lines_def found_def w2_def same)
  note loop = main_loop_undisturbed [OF assms(5) l, of 0]
  from f t show ?thesis
    by (simp add: main_after_mkdir [OF assms(1,2)] assms(3,4) print_step found_def [symmetric]
        w2_def [symmetric] loop)
      (simp add: summary_lines_def sys_exit_def same run_lines_def found_def w2_def print_step
        split: if_splits)
qed

lemma summary_snd:
  "calls (snd (and_then (uncaught (print env a w)) (\<lambda>_ w4.
      and_then (uncaught (print env b w4)) (\<lambda>_ w5.
      and_then (uncaught (print env c w5)) (\<lambda>_ w6.
        if P then and_then (uncaught (print env d w6)) (\<lambda>_ w7. sys_exit 1 w7)
        else (Inr (), w6)))))) = calls w"
  "tree (snd (and_then (uncaught (print env a w)) (\<lambda>_ w4.
      and_then (uncaught (print env b w4)) (\<lambda>_ w5.
      and_then (uncaught (print env c w5)) (\<lambda>_ w6.
        if P then and_then (uncaught (print env d w6)) (\<lambda>_ w7. sys_exit 1 w7)
        else (Inr (), w6)))))) = tree w"
  by (simp_all add: print_step sys_exit_def split: option.splits)

lemma main_calls:
  "\<exists>n. calls (snd (main env w)) = calls w @ map task_call (take n (glob_mp3 music_dir w))"
proof (cases "path_exists music_dir w")
  case False
  then have "calls (snd (main env w)) = calls w @ map task_call (take 0 (glob_mp3 music_dir w))"
    by (simp add: main_no_dir split: option.splits)
  then show ?thesis by blast
next
  case True
  obtain r w1 where m: "mkdir env output_dir w = (r, w1)"
    by (cases "mkdir env output_dir w")
  from mkdir_output_snd [of env w] m have same: "calls w1 = calls w" by simp
  show ?thesis
  proof (cases r)
    case (Inl e)
    with True m same
    have "calls (snd (main env w)) = calls w @ map task_call (take 0 (glob_mp3 music_dir w))"
      by (simp add: main_mkdir_fails)
    then show ?thesis by blast
  next
    case (Inr u)
    with m have m': "mkdir env output_dir w = (Inr (), w1)" by simp
    show ?thesis
    proof (cases "glob_mp3 music_dir w = []")
      case True
      with main_no_files [OF \<open>path_exists music_dir w\<close> m'] same
      have "calls (snd (main env w)) = calls w @ map task_call (take 0 (glob_mp3 music_dir w))"
        by (simp split: option.splits)
      then show ?thesis by blast
    next
      case False
      define files where "files = glob_mp3 music_dir w"
      show ?thesis
      proof (cases "stdout_error env (console w1) (msg_found (int (length files)))")
        case (Some e)
        with False same
        have "calls (snd (main env w)) = calls w @ map task_call (take 0 (glob_mp3 music_dir w))"
          by (simp add: main_after_mkdir [OF \<open>path_exists music_dir w\<close> m'] print_step
              files_def)
        then show ?thesis by blast
      next
        case None
        define w2 where "w2 = w1\<lparr>console := console w1 @ [msg_found (int (length files))]\<rparr>"
        obtain x sc w3 where l: "main_loop env files 0 w2 = (x, sc, w3)"
          by (cases "main_loop env files 0 w2")
        from main_loop_calls [of env files 0 w2] l obtain n
          where n: "calls w3 = calls w2 @ map task_call (take n files)" by auto
        have "calls (snd (main env w)) = calls w3"
          using False None l
          by (cases x)
            (simp_all add: main_after_mkdir [OF \<open>path_exists music_dir w\<close> m'] print_step [of env "msg_found _"]
              files_def [symmetric] w2_def [symmetric] summary_snd)
        with n same have "calls (snd (main env w)) = calls w @ map task_call (take n files)"
          by (simp add: w2_def)
        then show ?thesis unfolding files_def by blast
      qed
    qed
  qed
qed

lemma filter_ok_compl:
  "int (length (filter P xs)) = int (length xs) - int (length (filter (\<lambda>x. \<not> P x) xs))"
  using sum_length_filter_compl [of P xs] by simp

lemma mkdir_ok_obtain:
  assumes "fst (mkdir env p w) = Inr ()"
  shows "mkdir env p w = (Inr (), snd (mkdir env p w))"
  using assms by (cases "mkdir env p w") simp

lemma sample_exists: "path_exists music_dir sample_world"
  by code_simp

lemma sample_mkdir: "fst (mkdir sample_env output_dir sample_world) = Inr ()"
  by code_simp

lemma sample_glob:
  "glob_mp3 music_dir sample_world = [[''music'', ''a.mp3''], [''music'', ''b.mp3'']]"
  by code_simp

lemma exit_status_simps:
  "exit_status (Inr u) = 0" "exit_status (Inl (SystemExit c)) = c"
  "exit_status (Inl (Uncaught e)) \<noteq> 0"
  by (cases e; simp add: exit_status_def)+

lemma sample_uninterrupted: "uninterrupted sample_env (glob_mp3 music_dir sample_world)"
  by code_simp

lemma sample_takes_all:
  "takes_all sample_env (console sample_world)
     (run_lines sample_env (glob_mp3 music_dir sample_world))"
  by code_simp

lemma empty_music_exists: "path_exists music_dir empty_music_world"
  by code_simp

lemma empty_music_glob: "glob_mp3 music_dir empty_music_world = []"
  by code_simp

lemma str_path_output:
  "str_path (path_join output_dir n) = ''public/music/'' @ n"
  by (simp add: str_path_def path_join_def output_dir_def)

lemma last_args_task_call: "last (args (task_call f)) = ''public/music/'' @ path_name f"
  by (simp add: task_call_def ffmpeg_call_def ffmpeg_cmd_def str_path_output)

lemma filter_all: "\<forall>x \<in> set xs. P x \<Longrightarrow> filter P xs = xs"
  by (induction xs) auto

lemma filter_none: "\<forall>x \<in> set xs. \<not> P x \<Longrightarrow> filter P xs = []"
  by (induction xs) auto

lemma filter_removeAll_fail: "\<not> P f \<Longrightarrow> filter P (removeAll f xs) = filter P xs"
  by (induction xs) auto

lemma msg_not_found_distinct:
  "msg_not_found \<noteq> msg_error e" "msg_not_found \<noteq> msg_ffmpeg_error err"
  "msg_not_found \<noteq> msg_timed_out" "msg_not_found \<noteq> msg_converted"
  by (simp_all add: msg_not_found_def msg_error_def msg_ffmpeg_error_def msg_timed_out_def
      msg_converted_def cross_mark_def check_mark_def)

lemma except_clauses_not_true: "fst (except_clauses env e w) \<noteq> Inr True"
  by (cases e) (simp_all add: except_clauses_def print_then split: option.splits)

lemma after_try_not_true:
  "fst m \<noteq> Inr True \<Longrightarrow>
   fst (case m of (Inr b, w1) \<Rightarrow> (Inr b, w1) | (Inl e, w1) \<Rightarrow> except_clauses env e w1) \<noteq> Inr True"
  by (cases m; cases "fst m") (simp_all add: except_clauses_not_true)

lemma try_block_true:
  "fst (try_block env src dst w) = Inr True \<Longrightarrow>
     \<exists>err. run env (ffmpeg_call src dst) = CompletedProcess 0 err"
  by (cases "run env (ffmpeg_call src dst)")
    (auto simp: try_block_def subprocess_run_def and_then_def print_def
      split: option.splits if_splits)

lemma convert_audio_file_true:
  assumes "fst (convert_audio_file env src dst w) = Inr True"
  shows "\<exists>err. run env (ffmpeg_call src dst) = CompletedProcess 0 err"
proof (cases "stdout_error env (console w) (msg_converting src)")
  case (Some e)
  with assms show ?thesis by (simp add: convert_audio_file_rejected)
next
  case None
  define w0 where "w0 = w\<lparr>console := console w @ [msg_converting src]\<rparr>"
  from None assms
  have "fst (case try_block env src dst w0 of
              (Inr b, w1) \<Rightarrow> (Inr b, w1) | (Inl e, w1) \<Rightarrow> except_clauses env e w1) = Inr True"
    by (simp add: convert_audio_file_def print_then w0_def)
  with after_try_not_true [of "try_block env src dst w0" env]
  have "fst (try_block env src dst w0) = Inr True" by blast
  then show ?thesis by (rule try_block_true)
qed

lemma sample_a_undisturbed:
  "undisturbed sample_env sample_world [''music'', ''a.mp3''] [''public'', ''music'', ''a.mp3'']"
  by code_simp

lemma sample_a_result:
  "run sample_env (ffmpeg_call [''music'', ''a.mp3''] [''public'', ''music'', ''a.mp3''])
     = CompletedProcess 1 ''Invalid data found''"
  by code_simp

lemma main_calls_timeout:
  "\<forall>c \<in> set (drop (length (calls w)) (calls (snd (main env w)))). timeout c = 60"
proof -
  from main_calls [of env w] obtain n
    where "calls (snd (main env w)) = calls w @ map task_call (take n (glob_mp3 music_dir w))"
    by blast
  then show ?thesis by auto
qed

lemma sample_timeout_facts:
  "fst (mkdir (sample_env\<lparr>run := timeout_tool\<rparr>) output_dir sample_world) = Inr ()"
  "[''music'', ''a.mp3''] \<in> set (glob_mp3 music_dir sample_world)"
  "run (sample_env\<lparr>run := timeout_tool\<rparr>) (task_call [''music'', ''a.mp3'']) = Raises TimeoutExpired"
  "uninterrupted (sample_env\<lparr>run := timeout_tool\<rparr>) (glob_mp3 music_dir sample_world)"
  "takes_all (sample_env\<lparr>run := timeout_tool\<rparr>) (console sample_world)
     (run_lines (sample_env\<lparr>run := timeout_tool\<rparr>) (glob_mp3 music_dir sample_world))"
  "takes_all (sample_env\<lparr>run := timeout_tool\<rparr>) (console sample_world)
     [msg_converting [''music'', ''a.mp3''], msg_timed_out]"
  by code_simp+

lemma sample_absent_facts:
  "fst (mkdir (sample_env\<lparr>run := absent_tool\<rparr>) output_dir sample_world) = Inr ()"
  "glob_mp3 music_dir sample_world \<noteq> []"
  "\<forall>f \<in> set (glob_mp3 music_dir sample_world).
     run (sample_env\<lparr>run := absent_tool\<rparr>) (task_call f) = Raises FileNotFoundError"
  "takes_all (sample_env\<lparr>run := absent_tool\<rparr>) (console sample_world)
     (run_lines (sample_env\<lparr>run := absent_tool\<rparr>) (glob_mp3 music_dir sample_world))"
  by code_simp+

section \<open>Specified behaviour\<close>

text \<open>
  C1. When \<^verbatim>\<open>music\<close> holds \<open>N\<close> matching files and the tool fails on exactly \<open>K\<close> of them
  (\<open>K\<close> at least one), and moreover the output directory can be created, no call is
  interrupted and the stream takes the lines of the run one after the other, then the run
  invokes the tool once for each of the \<open>N\<close> files, in order, prints the summary
  \<^verbatim>\<open>Conversion complete: <N-K>/N successful\<close> and exits with a non-zero status. Without the
  three provisos the run can stop early: in \<open>blocked_world\<close> no conversion is attempted and
  no summary is printed.
\<close>

theorem partial_failure_run:
  assumes "path_exists music_dir w"
    and "fst (mkdir env output_dir w) = Inr ()"
    and "files = glob_mp3 music_dir w"
    and "K = length (filter (\<lambda>f. \<not> tool_ok (run env (task_call f))) files)"
    and "0 < K"
    and "uninterrupted env files"
    and "takes_all env (console w) (run_lines env files)"
  shows "calls (snd (main env w)) = calls w @ map task_call files
     \<and> msg_summary (int (length files) - int K) (int (length files))
          \<in> set (console (snd (main env w)))
     \<and> exit_status (fst (main env w)) \<noteq> 0"
proof -
  from assms(4,5) have ne: "files \<noteq> []" by auto
  have sc: "successes env files = int (length files) - int K"
    unfolding successes_def assms(4) by (rule filter_ok_compl)
  with assms(5) have lt: "successes env files < int (length files)" by simp
  note run = main_run [OF assms(1) mkdir_ok_obtain [OF assms(2)] assms(3) [symmetric] ne
      assms(6) assms(7)]
  show ?thesis
    unfolding run using lt sc by (simp add: exit_status_simps run_lines_def summary_lines_def)
qed

theorem partial_failure_run_witness:
  "path_exists music_dir sample_world
   \<and> fst (mkdir sample_env output_dir sample_world) = Inr ()
   \<and> length (filter (\<lambda>f. \<not> tool_ok (run sample_env (task_call f)))
        (glob_mp3 music_dir sample_world)) = 1
   \<and> calls (snd (main sample_env sample_world))
       = calls sample_world @ map task_call [[''music'', ''a.mp3''], [''music'', ''b.mp3'']]
   \<and> msg_summary (2 - 1) 2 \<in> set (console (snd (main sample_env sample_world)))
   \<and> exit_status (fst (main sample_env sample_world)) \<noteq> 0"
proof -
  have K: "length (filter (\<lambda>f. \<not> tool_ok (run sample_env (task_call f)))
      (glob_mp3 music_dir sample_world)) = 1"
    by code_simp
  from partial_failure_run [OF sample_exists sample_mkdir refl K [symmetric] _
      sample_uninterrupted sample_takes_all]
  show ?thesis
    using sample_exists sample_mkdir K by (simp add: sample_glob)
qed

theorem partial_failure_counterexample:
  "path_exists music_dir blocked_world
   \<and> glob_mp3 music_dir blocked_world = [[''music'', ''a.mp3''], [''music'', ''b.mp3'']]
   \<and> \<not> tool_ok (run sample_env (task_call [''music'', ''a.mp3'']))
   \<and> tool_ok (run sample_env (task_call [''music'', ''b.mp3'']))
   \<and> calls (snd (main sample_env blocked_world)) = []
   \<and> msg_summary 1 2 \<notin> set (console (snd (main sample_env blocked_world)))"
  by code_simp

text \<open>
  C2. The tally stays between zero and the number of discovered files: the loop of
  \<^verbatim>\<open>main\<close>, started with a success count of zero, leaves the count \<open>sc\<close> with
  \<open>0 \<le> sc \<le> length files\<close>, whether it ends normally or by an exception (it ends normally
  when no call is interrupted and the stream takes its lines), and one more file raises the
  count by at most one.
\<close>

theorem tally_invariant:
  "\<exists>exc sc w'. main_loop env files 0 w = (exc, sc, w') \<and> 0 \<le> sc \<and> sc \<le> int (length files)
     \<and> (uninterrupted env files \<and> takes_all env (console w) (loop_lines env files)
          \<longrightarrow> exc = None)
     \<and> (\<exists>exc' sc' w''. main_loop env (files @ [f]) 0 w = (exc', sc', w'')
           \<and> sc \<le> sc' \<and> sc' \<le> sc + 1)"
proof -
  obtain exc sc w' where l: "main_loop env files 0 w = (exc, sc, w')"
    by (cases "main_loop env files 0 w")
  from main_loop_bounds [of 0 env files w] l
  have b: "0 \<le> sc" "sc \<le> int (length files)" by simp_all
  have u: "uninterrupted env files \<and> takes_all env (console w) (loop_lines env files)
      \<longrightarrow> exc = None"
    using l by (auto simp: main_loop_undisturbed)
  obtain exc' sc' w'' where l': "main_loop env (files @ [f]) 0 w = (exc', sc', w'')"
    by (cases "main_loop env (files @ [f]) 0 w")
  have "sc \<le> sc' \<and> sc' \<le> sc + 1"
  proof (cases exc)
    case None
    with l l' have "main_loop env [f] sc w' = (exc', sc', w'')"
      by (simp add: main_loop_append)
    with main_loop_bounds [of sc env "[f]" w'] show ?thesis by simp
  next
    case (Some e)
    with l l' show ?thesis by (simp add: main_loop_append)
  qed
  with l l' b u show ?thesis by simp
qed

theorem tally_invariant_witness:
  "uninterrupted sample_env [[''music'', ''a.mp3''], [''music'', ''b.mp3'']]
   \<and> takes_all sample_env (console sample_world)
         (loop_lines sample_env [[''music'', ''a.mp3''], [''music'', ''b.mp3'']])
   \<and> (\<exists>sc w'. main_loop sample_env [[''music'', ''a.mp3''], [''music'', ''b.mp3'']] 0 sample_world
          = (None, sc, w') \<and> 0 \<le> sc \<and> sc \<le> 2)"
proof -
  have u: "uninterrupted sample_env [[''music'', ''a.mp3''], [''music'', ''b.mp3'']]"
    by code_simp
  have t: "takes_all sample_env (console sample_world)
      (loop_lines sample_env [[''music'', ''a.mp3''], [''music'', ''b.mp3'']])"
    by code_simp
  from tally_invariant [of sample_env "[[''music'', ''a.mp3''], [''music'', ''b.mp3'']]"
      sample_world "[]"] u t
  show ?thesis
    by (auto simp del: main_loop.simps)
qed

text \<open>
  C3. If nothing exists at the path \<^verbatim>\<open>music\<close>, the process exits with a non-zero status,
  the filesystem is left as it was (so no output directory is created) and
  \<^verbatim>\<open>subprocess.run\<close> is not called.
\<close>

theorem missing_source_dir:
  assumes "\<not> path_exists music_dir w"
  shows "exit_status (fst (main env w)) \<noteq> 0
     \<and> tree (snd (main env w)) = tree w
     \<and> calls (snd (main env w)) = calls w"
  using assms by (simp add: main_no_dir exit_status_simps split: option.splits)

theorem missing_source_dir_witness:
  "\<not> path_exists music_dir no_music_world
   \<and> exit_status (fst (main sample_env no_music_world)) \<noteq> 0
   \<and> tree (snd (main sample_env no_music_world)) = tree no_music_world
   \<and> calls (snd (main sample_env no_music_world)) = calls no_music_world"
proof -
  have h: "\<not> path_exists music_dir no_music_world"
    by code_simp
  from missing_source_dir [OF h, of sample_env] h show ?thesis
    by simp
qed

text \<open>
  C4. If \<^verbatim>\<open>music\<close> exists but holds no entry matching \<^verbatim>\<open>*.mp3\<close>, the process exits with a
  non-zero status and \<^verbatim>\<open>subprocess.run\<close> is not called.
\<close>

theorem no_matching_files:
  assumes "path_exists music_dir w" and "glob_mp3 music_dir w = []"
  shows "exit_status (fst (main env w)) \<noteq> 0 \<and> calls (snd (main env w)) = calls w"
proof -
  obtain r w1 where m: "mkdir env output_dir w = (r, w1)"
    by (cases "mkdir env output_dir w")
  from mkdir_output_snd [of env w] m have same: "calls w1 = calls w" by simp
  show ?thesis
  proof (cases r)
    case (Inl e)
    with m same show ?thesis
      by (simp add: main_mkdir_fails [OF assms(1)] exit_status_simps)
  next
    case (Inr u)
    with m have "mkdir env output_dir w = (Inr (), w1)" by simp
    from main_no_files [OF assms(1) this assms(2)] same show ?thesis
      by (simp add: exit_status_simps split: option.splits)
  qed
qed

theorem no_matching_files_witness:
  "path_exists music_dir empty_music_world
   \<and> glob_mp3 music_dir empty_music_world = []
   \<and> exit_status (fst (main sample_env empty_music_world)) \<noteq> 0
   \<and> calls (snd (main sample_env empty_music_world)) = calls empty_music_world"
  using no_matching_files [OF empty_music_exists empty_music_glob, of sample_env]
    empty_music_exists empty_music_glob
  by simp

text \<open>
  C5. If \<^verbatim>\<open>music\<close> holds at least one matching file and the tool succeeds on every one,
  and moreover the output directory can be created, no call is interrupted and the stream
  takes the lines of the run one after the other, then the exit status is 0, and the output
  path handed to the tool for each file is \<^verbatim>\<open>public/music/\<close> followed by the unchanged file
  name of the input. Without the provisos the exit status can be 1 although the tool would
  succeed on every file, as in \<open>blocked_world\<close>.
\<close>

theorem all_succeed_run:
  assumes "path_exists music_dir w"
    and "fst (mkdir env output_dir w) = Inr ()"
    and "files = glob_mp3 music_dir w"
    and "files \<noteq> []"
    and "\<forall>f \<in> set files. tool_ok (run env (task_call f))"
    and "uninterrupted env files"
    and "takes_all env (console w) (run_lines env files)"
  shows "exit_status (fst (main env w)) = 0
     \<and> map (\<lambda>c. last (args c)) (drop (length (calls w)) (calls (snd (main env w))))
         = map (\<lambda>f. ''public/music/'' @ path_name f) files"
proof -
  have sc: "successes env files = int (length files)"
    using assms(5) by (simp add: successes_def filter_all)
  note run = main_run [OF assms(1) mkdir_ok_obtain [OF assms(2)] assms(3) [symmetric] assms(4)
      assms(6) assms(7)]
  show ?thesis
    unfolding run by (simp add: sc exit_status_simps o_def last_args_task_call)
qed

theorem all_succeed_run_witness:
  "path_exists music_dir sample_world
   \<and> fst (mkdir (sample_env\<lparr>run := ok_tool\<rparr>) output_dir sample_world) = Inr ()
   \<and> tool_ok (ok_tool (task_call [''music'', ''a.mp3'']))
   \<and> tool_ok (ok_tool (task_call [''music'', ''b.mp3'']))
   \<and> uninterrupted (sample_env\<lparr>run := ok_tool\<rparr>) (glob_mp3 music_dir sample_world)
   \<and> takes_all (sample_env\<lparr>run := ok_tool\<rparr>) (console sample_world)
         (run_lines (sample_env\<lparr>run := ok_tool\<rparr>) (glob_mp3 music_dir sample_world))
   \<and> exit_status (fst (main (sample_env\<lparr>run := ok_tool\<rparr>) sample_world)) = 0
   \<and> map (\<lambda>c. last (args c))
        (drop (length (calls sample_world)) (calls (snd (main (sample_env\<lparr>run := ok_tool\<rparr>) sample_world))))
       = [''public/music/a.mp3'', ''public/music/b.mp3'']"
proof -
  have m: "fst (mkdir (sample_env\<lparr>run := ok_tool\<rparr>) output_dir sample_world) = Inr ()"
    by code_simp
  have ne: "glob_mp3 music_dir sample_world \<noteq> []"
    by (simp add: sample_glob)
  have ok: "\<forall>f \<in> set (glob_mp3 music_dir sample_world).
      tool_ok (run (sample_env\<lparr>run := ok_tool\<rparr>) (task_call f))"
    by code_simp
  have u: "uninterrupted (sample_env\<lparr>run := ok_tool\<rparr>) (glob_mp3 music_dir sample_world)"
    by code_simp
  have acc: "takes_all (sample_env\<lparr>run := ok_tool\<rparr>) (console sample_world)
      (run_lines (sample_env\<lparr>run := ok_tool\<rparr>) (glob_mp3 music_dir sample_world))"
    by code_simp
  from all_succeed_run [OF sample_exists m refl ne ok u acc] sample_exists m ok u acc
  show ?thesis
    by (simp add: sample_glob path_name_def)
qed

theorem all_succeed_counterexample:
  "path_exists music_dir blocked_world
   \<and> glob_mp3 music_dir blocked_world = [[''music'', ''a.mp3''], [''music'', ''b.mp3'']]
   \<and> tool_ok (ok_tool (task_call [''music'', ''a.mp3'']))
   \<and> tool_ok (ok_tool (task_call [''music'', ''b.mp3'']))
   \<and> exit_status (fst (main (sample_env\<lparr>run := ok_tool\<rparr>) blocked_world)) = 1
   \<and> calls (snd (main (sample_env\<lparr>run := ok_tool\<rparr>) blocked_world)) = []"
  by code_simp

text \<open>
  C6. The call of a conversion has the argument list
  \<^verbatim>\<open>ffmpeg.exe -i <input> -ar 44100 -ac 2 -b:a 192k -y <output>\<close> with the output captured as
  text, and it is made as soon as the stream has taken the progress line. A conversion that
  returns \<open>True\<close> had a completed process with return code 0. When the conversion is
  undisturbed the converse holds too, so that it returns \<open>True\<close> exactly for return code 0,
  and for any other return code it returns \<open>False\<close> after printing the \<^verbatim>\<open>ffmpeg error\<close>
  message followed by the tool's error stream. On a stream that lacks the check mark a
  return code of 0 does not make the conversion a success.
\<close>

theorem ffmpeg_invocation:
  "\<exists>c. args c = [''ffmpeg.exe'', ''-i'', str_path src, ''-ar'', ''44100'', ''-ac'', ''2'',
                 ''-b:a'', ''192k'', ''-y'', str_path dst]
     \<and> capture_output c \<and> text_mode c
     \<and> (stdout_error env (console w) (msg_converting src) = None \<longrightarrow>
          calls (snd (convert_audio_file env src dst w)) = calls w @ [c])
     \<and> (fst (convert_audio_file env src dst w) = Inr True \<longrightarrow>
          (\<exists>err. run env c = CompletedProcess 0 err))
     \<and> (undisturbed env w src dst \<longrightarrow>
          (fst (convert_audio_file env src dst w) = Inr True
             \<longleftrightarrow> (\<exists>err. run env c = CompletedProcess 0 err))
          \<and> (\<forall>rc err. run env c = CompletedProcess rc err \<and> rc \<noteq> 0 \<longrightarrow>
                fst (convert_audio_file env src dst w) = Inr False
                \<and> last (console (snd (convert_audio_file env src dst w)))
                    = ''  '' @ cross_mark @ '' ffmpeg error: '' @ err))"
proof (rule exI [of _ "ffmpeg_call src dst"], intro conjI impI)
  show "args (ffmpeg_call src dst) = [''ffmpeg.exe'', ''-i'', str_path src, ''-ar'', ''44100'',
      ''-ac'', ''2'', ''-b:a'', ''192k'', ''-y'', str_path dst]"
    by (simp add: ffmpeg_call_def ffmpeg_cmd_def)
  show "capture_output (ffmpeg_call src dst)" "text_mode (ffmpeg_call src dst)"
    by (simp_all add: ffmpeg_call_def)
  show "calls (snd (convert_audio_file env src dst w)) = calls w @ [ffmpeg_call src dst]"
    if "stdout_error env (console w) (msg_converting src) = None"
    using that by (simp add: convert_audio_file_calls)
  show "\<exists>err. run env (ffmpeg_call src dst) = CompletedProcess 0 err"
    if "fst (convert_audio_file env src dst w) = Inr True"
    using that by (rule convert_audio_file_true)
  show "fst (convert_audio_file env src dst w) = Inr True
      \<longleftrightarrow> (\<exists>err. run env (ffmpeg_call src dst) = CompletedProcess 0 err)"
    if "undisturbed env w src dst"
    by (auto simp: convert_audio_file_undisturbed [OF that] tool_ok_def split: run_result.splits)
  show "\<forall>rc err. run env (ffmpeg_call src dst) = CompletedProcess rc err \<and> rc \<noteq> 0 \<longrightarrow>
      fst (convert_audio_file env src dst w) = Inr False
      \<and> last (console (snd (convert_audio_file env src dst w)))
          = ''  '' @ cross_mark @ '' ffmpeg error: '' @ err"
    if "undisturbed env w src dst"
    by (simp add: convert_audio_file_undisturbed [OF that] tool_ok_def outcome_lines_def
        msg_ffmpeg_error_def)
qed

theorem ffmpeg_invocation_witness:
  "undisturbed sample_env sample_world [''music'', ''a.mp3''] [''public'', ''music'', ''a.mp3'']
   \<and> run sample_env (ffmpeg_call [''music'', ''a.mp3''] [''public'', ''music'', ''a.mp3''])
       = CompletedProcess 1 ''Invalid data found''
   \<and> fst (convert_audio_file sample_env [''music'', ''a.mp3''] [''public'', ''music'', ''a.mp3'']
        sample_world) = Inr False
   \<and> last (console (snd (convert_audio_file sample_env [''music'', ''a.mp3'']
        [''public'', ''music'', ''a.mp3''] sample_world)))
      = ''  '' @ cross_mark @ '' ffmpeg error: Invalid data found''"
proof -
  from ffmpeg_invocation [of "[''music'', ''a.mp3'']" "[''public'', ''music'', ''a.mp3'']"
      sample_env sample_world]
  obtain c where a: "args c = [''ffmpeg.exe'', ''-i'', str_path [''music'', ''a.mp3''], ''-ar'',
        ''44100'', ''-ac'', ''2'', ''-b:a'', ''192k'', ''-y'',
        str_path [''public'', ''music'', ''a.mp3'']]"
    and r: "\<And>rc err. run sample_env c = CompletedProcess rc err \<Longrightarrow> rc \<noteq> 0 \<Longrightarrow>
          fst (convert_audio_file sample_env [''music'', ''a.mp3'']
                 [''public'', ''music'', ''a.mp3''] sample_world) = Inr False
          \<and> last (console (snd (convert_audio_file sample_env [''music'', ''a.mp3'']
                 [''public'', ''music'', ''a.mp3''] sample_world)))
               = ''  '' @ cross_mark @ '' ffmpeg error: '' @ err"
    using sample_a_undisturbed by blast
  have t: "run sample_env c = CompletedProcess 1 ''Invalid data found''"
    by (simp add: sample_env_def sample_tool_def a str_path_def)
  from r [OF t] sample_a_undisturbed sample_a_result show ?thesis by simp
qed

theorem ffmpeg_invocation_counterexample:
  "run (sample_env\<lparr>run := ok_tool, stdout_error := latin_stdout\<rparr>)
       (ffmpeg_call [''music'', ''a.mp3''] [''public'', ''music'', ''a.mp3''])
     = CompletedProcess 0 []
   \<and> fst (convert_audio_file (sample_env\<lparr>run := ok_tool, stdout_error := latin_stdout\<rparr>)
        [''music'', ''a.mp3''] [''public'', ''music'', ''a.mp3''] sample_world)
     = Inl (OtherException ''charmap codec cannot encode character'')"
  by code_simp

text \<open>
  C7. Every call of \<^verbatim>\<open>subprocess.run\<close> made by any run carries the timeout 60. A conversion
  whose call times out returns \<open>False\<close> after printing the timed-out message, when the
  stream takes its two lines. When the output directory can be created, no call is
  interrupted, the stream takes the lines of the run one after the other, and the call for
  a discovered file \<open>f\<close> times out, then the run still calls the tool for every discovered
  file, it ends through the summary with \<^verbatim>\<open>sys.exit(1)\<close> rather than through an exception,
  and the count it reports is the number of successes among the other files. On a stream
  that lacks the cross mark the time-out ends the run: the \<^verbatim>\<open>print\<close> of the handler
  raises.
\<close>

theorem timeout_fails_one_file_only:
  "(\<forall>c \<in> set (drop (length (calls w)) (calls (snd (main env w)))). timeout c = 60)
   \<and> (run env (task_call f) = Raises TimeoutExpired
       \<and> takes_all env (console w0) [msg_converting f, msg_timed_out]
       \<longrightarrow>
         fst (convert_audio_file env f (path_join output_dir (path_name f)) w0) = Inr False
         \<and> last (console (snd (convert_audio_file env f (path_join output_dir (path_name f)) w0)))
             = msg_timed_out)
   \<and> (path_exists music_dir w
       \<and> fst (mkdir env output_dir w) = Inr ()
       \<and> f \<in> set (glob_mp3 music_dir w)
       \<and> run env (task_call f) = Raises TimeoutExpired
       \<and> uninterrupted env (glob_mp3 music_dir w)
       \<and> takes_all env (console w) (run_lines env (glob_mp3 music_dir w))
       \<longrightarrow>
         calls (snd (main env w)) = calls w @ map task_call (glob_mp3 music_dir w)
         \<and> fst (main env w) = Inl (SystemExit 1)
         \<and> msg_summary (successes env (removeAll f (glob_mp3 music_dir w)))
              (int (length (glob_mp3 music_dir w))) \<in> set (console (snd (main env w))))"
proof (intro conjI impI)
  show "\<forall>c \<in> set (drop (length (calls w)) (calls (snd (main env w)))). timeout c = 60"
    by (rule main_calls_timeout)
next
  assume h: "run env (task_call f) = Raises TimeoutExpired
       \<and> takes_all env (console w0) [msg_converting f, msg_timed_out]"
  then have uf: "undisturbed env w0 f (path_join output_dir (path_name f))"
    by (simp add: undisturbed_def task_call_def [symmetric] outcome_lines_def)
  have one: "convert_audio_file env f (path_join output_dir (path_name f)) w0 =
      (Inr False, w0\<lparr>console := console w0 @ [msg_converting f, msg_timed_out],
         calls := calls w0 @ [task_call f]\<rparr>)"
    using h by (simp add: convert_audio_file_undisturbed [OF uf] task_call_def tool_ok_def
        outcome_lines_def)
  show "fst (convert_audio_file env f (path_join output_dir (path_name f)) w0) = Inr False"
    by (simp add: one)
  show "last (console (snd (convert_audio_file env f (path_join output_dir (path_name f)) w0)))
      = msg_timed_out"
    by (simp add: one)
next
  define files where "files = glob_mp3 music_dir w"
  assume h: "path_exists music_dir w
       \<and> fst (mkdir env output_dir w) = Inr ()
       \<and> f \<in> set (glob_mp3 music_dir w)
       \<and> run env (task_call f) = Raises TimeoutExpired
       \<and> uninterrupted env (glob_mp3 music_dir w)
       \<and> takes_all env (console w) (run_lines env (glob_mp3 music_dir w))"
  then have ex: "path_exists music_dir w" and mk: "fst (mkdir env output_dir w) = Inr ()"
    and f: "f \<in> set files" and t: "run env (task_call f) = Raises TimeoutExpired"
    and u: "uninterrupted env files"
    and acc: "takes_all env (console w) (run_lines env files)"
    by (simp_all add: files_def)
  from f have ne: "files \<noteq> []" by auto
  have bad: "\<not> tool_ok (run env (task_call f))"
    by (simp add: t tool_ok_def)
  have "length (filter (\<lambda>g. tool_ok (run env (task_call g))) files) < length files"
    using f bad by (meson length_filter_less)
  then have lt: "successes env files < int (length files)" by (simp add: successes_def)
  have rm: "successes env (removeAll f files) = successes env files"
    unfolding successes_def using bad by (simp add: filter_removeAll_fail)
  note run = main_run [OF ex mkdir_ok_obtain [OF mk] files_def [symmetric] ne u acc]
  show "calls (snd (main env w)) = calls w @ map task_call (glob_mp3 music_dir w)"
    by (simp add: run files_def [symmetric])
  show "fst (main env w) = Inl (SystemExit 1)"
    using lt by (simp add: run)
  show "msg_summary (successes env (removeAll f (glob_mp3 music_dir w)))
      (int (length (glob_mp3 music_dir w))) \<in> set (console (snd (main env w)))"
    by (simp add: run files_def [symmetric] rm run_lines_def summary_lines_def)
qed

theorem timeout_fails_one_file_only_witness:
  "path_exists music_dir sample_world
   \<and> fst (mkdir (sample_env\<lparr>run := timeout_tool\<rparr>) output_dir sample_world) = Inr ()
   \<and> [''music'', ''a.mp3''] \<in> set (glob_mp3 music_dir sample_world)
   \<and> run (sample_env\<lparr>run := timeout_tool\<rparr>) (task_call [''music'', ''a.mp3''])
       = Raises TimeoutExpired
   \<and> uninterrupted (sample_env\<lparr>run := timeout_tool\<rparr>) (glob_mp3 music_dir sample_world)
   \<and> takes_all (sample_env\<lparr>run := timeout_tool\<rparr>) (console sample_world)
        (run_lines (sample_env\<lparr>run := timeout_tool\<rparr>) (glob_mp3 music_dir sample_world))
   \<and> takes_all (sample_env\<lparr>run := timeout_tool\<rparr>) (console sample_world)
        [msg_converting [''music'', ''a.mp3''], msg_timed_out]
   \<and> map timeout (drop (length (calls sample_world))
          (calls (snd (main (sample_env\<lparr>run := timeout_tool\<rparr>) sample_world)))) = [60, 60]
   \<and> fst (convert_audio_file (sample_env\<lparr>run := timeout_tool\<rparr>) [''music'', ''a.mp3'']
          (path_join output_dir (path_name [''music'', ''a.mp3''])) sample_world) = Inr False
   \<and> calls (snd (main (sample_env\<lparr>run := timeout_tool\<rparr>) sample_world))
       = calls sample_world @ map task_call [[''music'', ''a.mp3''], [''music'', ''b.mp3'']]
   \<and> fst (main (sample_env\<lparr>run := timeout_tool\<rparr>) sample_world) = Inl (SystemExit 1)"
proof -
  from timeout_fails_one_file_only [where env = "sample_env\<lparr>run := timeout_tool\<rparr>"
      and w = sample_world and f = "[''music'', ''a.mp3'']" and ?w0.0 = sample_world]
    sample_exists sample_timeout_facts
  show ?thesis
    by (simp add: sample_glob)
qed

theorem timeout_counterexample:
  "path_exists music_dir sample_world
   \<and> glob_mp3 music_dir sample_world = [[''music'', ''a.mp3''], [''music'', ''b.mp3'']]
   \<and> run (sample_env\<lparr>run := timeout_tool, stdout_error := latin_stdout\<rparr>)
        (task_call [''music'', ''a.mp3'']) = Raises TimeoutExpired
   \<and> calls (snd (main (sample_env\<lparr>run := timeout_tool, stdout_error := latin_stdout\<rparr>) sample_world))
       = [task_call [''music'', ''a.mp3'']]
   \<and> fst (main (sample_env\<lparr>run := timeout_tool, stdout_error := latin_stdout\<rparr>) sample_world)
       = Inl (Uncaught (OtherException ''charmap codec cannot encode character''))"
  by code_simp

text \<open>
  C8. If \<^verbatim>\<open>subprocess.run\<close> raises \<^verbatim>\<open>FileNotFoundError\<close> for every discovered file (at least
  one), the output directory can be created and the stream takes the lines of the run one
  after the other, then the run reports each file with the \<^verbatim>\<open>ffmpeg not found\<close> message,
  which differs from every generic \<^verbatim>\<open>Error: ...\<close> message, the summary shows \<open>0\<close> successes
  out of the total, every file has been attempted, and the exit status is non-zero. On a
  stream that lacks the cross mark the run ends at the first file without that message.
\<close>

theorem tool_absent_run:
  assumes "path_exists music_dir w"
    and "fst (mkdir env output_dir w) = Inr ()"
    and "files = glob_mp3 music_dir w"
    and "files \<noteq> []"
    and "\<forall>f \<in> set files. run env (task_call f) = Raises FileNotFoundError"
    and "takes_all env (console w) (run_lines env files)"
  shows "console (snd (main env w)) =
       console w @ [msg_found (int (length files))] @
       concat (map (\<lambda>f. [msg_converting f, msg_not_found]) files) @
       [newline @ msg_rule, msg_summary 0 (int (length files)), msg_rule, msg_some_failed]
     \<and> (\<forall>e. msg_not_found \<noteq> msg_error e)
     \<and> calls (snd (main env w)) = calls w @ map task_call files
     \<and> exit_status (fst (main env w)) \<noteq> 0"
proof -
  have "filter (\<lambda>f. tool_ok (run env (task_call f))) files = []"
    using assms(5) by (intro filter_none) (simp add: tool_ok_def)
  then have sc: "successes env files = 0"
    by (simp add: successes_def)
  have u: "uninterrupted env files"
    using assms(5) by (simp add: uninterrupted_def list_all_iff)
  have msgs: "map (\<lambda>f. msg_converting f # outcome_lines (run env (task_call f))) files
      = map (\<lambda>f. [msg_converting f, msg_not_found]) files"
    using assms(5) by (intro map_cong) (simp_all add: outcome_lines_def)
  note run = main_run [OF assms(1) mkdir_ok_obtain [OF assms(2)] assms(3) [symmetric] assms(4)
      u assms(6)]
  show ?thesis
    unfolding run using assms(4)
    by (simp add: sc exit_status_simps msg_not_found_distinct run_lines_def loop_lines_def msgs
        summary_lines_def)
qed

theorem tool_absent_run_witness:
  "path_exists music_dir sample_world
   \<and> fst (mkdir (sample_env\<lparr>run := absent_tool\<rparr>) output_dir sample_world) = Inr ()
   \<and> run (sample_env\<lparr>run := absent_tool\<rparr>) (task_call [''music'', ''a.mp3''])
       = Raises FileNotFoundError
   \<and> run (sample_env\<lparr>run := absent_tool\<rparr>) (task_call [''music'', ''b.mp3''])
       = Raises FileNotFoundError
   \<and> takes_all (sample_env\<lparr>run := absent_tool\<rparr>) (console sample_world)
        (run_lines (sample_env\<lparr>run := absent_tool\<rparr>) (glob_mp3 music_dir sample_world))
   \<and> console (snd (main (sample_env\<lparr>run := absent_tool\<rparr>) sample_world)) =
       console sample_world @ [msg_found 2] @
       [msg_converting [''music'', ''a.mp3''], msg_not_found,
        msg_converting [''music'', ''b.mp3''], msg_not_found] @
       [newline @ msg_rule, msg_summary 0 2, msg_rule, msg_some_failed]
   \<and> exit_status (fst (main (sample_env\<lparr>run := absent_tool\<rparr>) sample_world)) \<noteq> 0"
proof -
  from tool_absent_run [where env = "sample_env\<lparr>run := absent_tool\<rparr>" and w = sample_world
      and files = "glob_mp3 music_dir sample_world", OF sample_exists sample_absent_facts(1) refl
      sample_absent_facts(2-4)]
    sample_exists sample_absent_facts
  show ?thesis
    by (simp add: sample_glob)
qed

theorem tool_absent_counterexample:
  "path_exists music_dir sample_world
   \<and> glob_mp3 music_dir sample_world = [[''music'', ''a.mp3''], [''music'', ''b.mp3'']]
   \<and> run (sample_env\<lparr>run := absent_tool, stdout_error := latin_stdout\<rparr>)
        (task_call [''music'', ''a.mp3'']) = Raises FileNotFoundError
   \<and> run (sample_env\<lparr>run := absent_tool, stdout_error := latin_stdout\<rparr>)
        (task_call [''music'', ''b.mp3'']) = Raises FileNotFoundError
   \<and> calls (snd (main (sample_env\<lparr>run := absent_tool, stdout_error := latin_stdout\<rparr>) sample_world))
       = [task_call [''music'', ''a.mp3'']]
   \<and> msg_not_found \<notin> set (console (snd (main
        (sample_env\<lparr>run := absent_tool, stdout_error := latin_stdout\<rparr>) sample_world)))
   \<and> fst (main (sample_env\<lparr>run := absent_tool, stdout_error := latin_stdout\<rparr>) sample_world)
       = Inl (Uncaught (OtherException ''charmap codec cannot encode character''))"
  by code_simp

text \<open>
  C9. If \<^verbatim>\<open>music\<close> exists but holds no matching entry, and \<^verbatim>\<open>mkdir\<close> does not raise, then
  \<^verbatim>\<open>public\<close> and \<^verbatim>\<open>public/music\<close> are directories when the process exits with its
  non-zero status; if \<^verbatim>\<open>public/music\<close> was absent before, the filesystem has changed. When
  \<^verbatim>\<open>public\<close> is a regular file, \<^verbatim>\<open>mkdir\<close> raises and the filesystem stays as it was.
\<close>

theorem no_files_still_creates_output_dir:
  assumes "path_exists music_dir w" and "glob_mp3 music_dir w = []"
    and "fst (mkdir env output_dir w) = Inr ()"
  shows "is_dir output_dir (snd (main env w))
     \<and> is_dir [''public''] (snd (main env w))
     \<and> exit_status (fst (main env w)) \<noteq> 0
     \<and> (\<not> path_exists output_dir w \<longrightarrow> tree (snd (main env w)) \<noteq> tree w)"
proof -
  define w1 where "w1 = snd (mkdir env output_dir w)"
  from mkdir_ok_obtain [OF assms(3)] have m: "mkdir env output_dir w = (Inr (), w1)"
    by (simp add: w1_def)
  from mkdir_output_dirs [OF assms(3)]
  have d: "is_dir output_dir w1" "is_dir [''public''] w1"
    by (simp_all add: w1_def)
  have t: "tree (snd (main env w)) = tree w1"
    by (simp add: main_no_files [OF assms(1) m assms(2)] split: option.splits)
  have k: "\<And>p. kind_at (snd (main env w)) p = kind_at w1 p"
    by (simp add: kind_at_def t)
  have "\<not> path_exists output_dir w \<longrightarrow> tree w1 \<noteq> tree w"
    using d(1) by (auto simp: path_exists_def is_dir_def kind_at_def)
  with d t k show ?thesis
    by (simp add: is_dir_def main_no_files [OF assms(1) m assms(2)] exit_status_simps
        split: option.splits)
qed

theorem no_files_still_creates_output_dir_witness:
  "path_exists music_dir empty_music_world
   \<and> glob_mp3 music_dir empty_music_world = []
   \<and> fst (mkdir sample_env output_dir empty_music_world) = Inr ()
   \<and> \<not> path_exists output_dir empty_music_world
   \<and> is_dir output_dir (snd (main sample_env empty_music_world))
   \<and> is_dir [''public''] (snd (main sample_env empty_music_world))
   \<and> exit_status (fst (main sample_env empty_music_world)) \<noteq> 0
   \<and> tree (snd (main sample_env empty_music_world)) \<noteq> tree empty_music_world"
proof -
  have m: "fst (mkdir sample_env output_dir empty_music_world) = Inr ()"
    by code_simp
  have n: "\<not> path_exists output_dir empty_music_world"
    by code_simp
  from no_files_still_creates_output_dir [OF empty_music_exists empty_music_glob m]
    empty_music_exists empty_music_glob m n
  show ?thesis by simp
qed

theorem no_files_output_dir_counterexample:
  "path_exists music_dir public_file_world
   \<and> glob_mp3 music_dir public_file_world = []
   \<and> \<not> path_exists output_dir (snd (main sample_env public_file_world))
   \<and> tree (snd (main sample_env public_file_world)) = tree public_file_world"
  by code_simp

text \<open>
  C10. An undisturbed call of \<^verbatim>\<open>convert_audio_file\<close> returns a boolean and passes no
  exception to its caller: the boolean is \<open>True\<close> exactly when \<^verbatim>\<open>subprocess.run\<close> returned
  with return code 0, and \<open>False\<close> for a non-zero return code and for every exception
  raised by the call (a timeout, a missing executable, anything else of class
  \<^verbatim>\<open>Exception\<close>). Hence the loop of \<^verbatim>\<open>main\<close> runs to its end when no call is interrupted
  and the stream takes its lines. An exception does reach the caller from the \<^verbatim>\<open>print\<close> of
  line 17, from the \<^verbatim>\<open>print\<close> of an \<^verbatim>\<open>except\<close> clause, and for \<^verbatim>\<open>KeyboardInterrupt\<close>.
\<close>

theorem convert_audio_file_total:
  "(undisturbed env w src dst \<longrightarrow>
      (\<exists>b w'. convert_audio_file env src dst w = (Inr b, w')
         \<and> (b \<longleftrightarrow> (\<exists>err. run env (ffmpeg_call src dst) = CompletedProcess 0 err)))
      \<and> (\<forall>rc err. run env (ffmpeg_call src dst) = CompletedProcess rc err \<and> rc \<noteq> 0 \<longrightarrow>
            fst (convert_audio_file env src dst w) = Inr False)
      \<and> (\<forall>e. run env (ffmpeg_call src dst) = Raises e \<longrightarrow>
            fst (convert_audio_file env src dst w) = Inr False))
   \<and> (uninterrupted env files \<and> takes_all env (console w) (loop_lines env files) \<longrightarrow>
        (\<exists>sc w'. main_loop env files sc0 w = (None, sc, w')))"
  by (auto simp: convert_audio_file_undisturbed main_loop_undisturbed tool_ok_def
      split: run_result.splits)

theorem convert_audio_file_total_witness:
  "undisturbed sample_env sample_world [''music'', ''a.mp3''] [''public'', ''music'', ''a.mp3'']
   \<and> run sample_env (ffmpeg_call [''music'', ''a.mp3''] [''public'', ''music'', ''a.mp3''])
       = CompletedProcess 1 ''Invalid data found''
   \<and> fst (convert_audio_file sample_env [''music'', ''a.mp3''] [''public'', ''music'', ''a.mp3'']
        sample_world) = Inr False
   \<and> undisturbed (sample_env\<lparr>run := absent_tool\<rparr>) sample_world [''music'', ''a.mp3'']
        [''public'', ''music'', ''a.mp3'']
   \<and> run (sample_env\<lparr>run := absent_tool\<rparr>)
        (ffmpeg_call [''music'', ''a.mp3''] [''public'', ''music'', ''a.mp3''])
       = Raises FileNotFoundError
   \<and> fst (convert_audio_file (sample_env\<lparr>run := absent_tool\<rparr>) [''music'', ''a.mp3'']
        [''public'', ''music'', ''a.mp3''] sample_world) = Inr False
   \<and> uninterrupted sample_env [[''music'', ''a.mp3''], [''music'', ''b.mp3'']]
   \<and> takes_all sample_env (console sample_world)
         (loop_lines sample_env [[''music'', ''a.mp3''], [''music'', ''b.mp3'']])
   \<and> (\<exists>sc w'. main_loop sample_env [[''music'', ''a.mp3''], [''music'', ''b.mp3'']] 0 sample_world
         = (None, sc, w'))"
proof -
  have u2: "undisturbed (sample_env\<lparr>run := absent_tool\<rparr>) sample_world [''music'', ''a.mp3'']
      [''public'', ''music'', ''a.mp3'']"
    by code_simp
  have r2: "run (sample_env\<lparr>run := absent_tool\<rparr>)
      (ffmpeg_call [''music'', ''a.mp3''] [''public'', ''music'', ''a.mp3''])
      = Raises FileNotFoundError"
    by code_simp
  have u3: "uninterrupted sample_env [[''music'', ''a.mp3''], [''music'', ''b.mp3'']]"
    by code_simp
  have t3: "takes_all sample_env (console sample_world)
      (loop_lines sample_env [[''music'', ''a.mp3''], [''music'', ''b.mp3'']])"
    by code_simp
  from convert_audio_file_total [where env = sample_env
      and src = "[''music'', ''a.mp3'']" and dst = "[''public'', ''music'', ''a.mp3'']"
      and w = sample_world and files = "[[''music'', ''a.mp3''], [''music'', ''b.mp3'']]"
      and ?sc0.0 = 0] sample_a_undisturbed sample_a_result u3 t3
  have one: "fst (convert_audio_file sample_env [''music'', ''a.mp3'']
        [''public'', ''music'', ''a.mp3''] sample_world) = Inr False"
    and loop: "\<exists>sc w'. main_loop sample_env [[''music'', ''a.mp3''], [''music'', ''b.mp3'']] 0
        sample_world = (None, sc, w')"
    by (simp_all del: main_loop.simps)
  from convert_audio_file_total [where env = "sample_env\<lparr>run := absent_tool\<rparr>"
      and src = "[''music'', ''a.mp3'']" and dst = "[''public'', ''music'', ''a.mp3'']"
      and w = sample_world and files = "[]" and ?sc0.0 = 0] u2 r2
  have two: "fst (convert_audio_file (sample_env\<lparr>run := absent_tool\<rparr>) [''music'', ''a.mp3'']
        [''public'', ''music'', ''a.mp3''] sample_world) = Inr False"
    by (simp del: main_loop.simps)
  from one two loop sample_a_undisturbed sample_a_result u2 r2 u3 t3 show ?thesis
    by (simp del: main_loop.simps)
qed

theorem convert_audio_file_total_counterexample:
  "fst (convert_audio_file (sample_env\<lparr>stdout_error := latin_stdout\<rparr>) note_mp3
        (path_join output_dir (path_name note_mp3)) sample_world)
     = Inl (OtherException ''charmap codec cannot encode character'')
   \<and> fst (convert_audio_file (sample_env\<lparr>run := absent_tool, stdout_error := latin_stdout\<rparr>)
        [''music'', ''a.mp3''] [''public'', ''music'', ''a.mp3''] sample_world)
     = Inl (OtherException ''charmap codec cannot encode character'')
   \<and> fst (convert_audio_file (sample_env\<lparr>run := interrupted_tool\<rparr>)
        [''music'', ''a.mp3''] [''public'', ''music'', ''a.mp3''] sample_world)
     = Inl KeyboardInterrupt"
  by code_simp

end
